theory Spec2Isabelle
  imports Complex_Main "HOL-Library.Word" "HOL-Library.Monad_Syntax"
begin

unbundle bit_operations_syntax

section \<open>GNSS timing core of the LoRa gateway library (loragw\_gps.c)\<close>

text \<open>
  A shallow embedding of the UBX and NMEA frame decoders and of the time-base estimator
  of \<^verbatim>\<open>libloragw/src/loragw_gps.c\<close>.

  Conventions of the embedding:
  \<^item> a \<^verbatim>\<open>char\<close> buffer is a list of bytes whose length is the \<^verbatim>\<open>buff_size\<close> the caller
    passes; every read goes through \<open>rd\<close>, which yields \<open>None\<close> for an index outside the
    buffer, and a function that performs such a read returns \<open>None\<close>;
  \<^item> the file-scope variables holding the latest fix are one record, passed in and
    returned;
  \<^item> \<^verbatim>\<open>uint32_t\<close>, \<^verbatim>\<open>int32_t\<close>, \<^verbatim>\<open>int16_t\<close>, \<^verbatim>\<open>short\<close>, \<^verbatim>\<open>uint8_t\<close> are words of that width
    (a signed one is read with \<open>sint\<close>);
    \<^verbatim>\<open>time_t\<close> and \<^verbatim>\<open>long\<close> are unbounded integers (their 64-bit range is never
    approached by the values the functions compute);
  \<^item> a \<^verbatim>\<open>double\<close> is a real number: the arithmetic of the estimator is modelled
    exactly, without the rounding of IEEE 754 and without NaN or infinities. The casts
    from \<^verbatim>\<open>double\<close> to integer types truncate towards zero as in C.
\<close>

subsection \<open>Bytes and buffers\<close>

type_synonym byte = "8 word"

definition rd :: "byte list \<Rightarrow> nat \<Rightarrow> byte option" where
  "rd buf i = (if i < length buf then Some (buf ! i) else None)"

subsection \<open>Message kinds and return codes\<close>

text \<open>
  Modelled from the spec: \<^verbatim>\<open>enum gps_msg\<close> is declared in \<^verbatim>\<open>loragw_gps.h\<close>, which is not
  among the sources. The kinds are those the specification lists for the two parsers.
\<close>

datatype gps_msg =
  UNKNOWN | IGNORED | INVALID | INCOMPLETE | NMEA_RMC | NMEA_GGA | UBX_NAV_TIMEGPS

text \<open>
  Modelled from the spec: the return codes \<^verbatim>\<open>LGW_GPS_SUCCESS\<close> and \<^verbatim>\<open>LGW_GPS_ERROR\<close> are
  macros of \<^verbatim>\<open>loragw_gps.h\<close>; the specification speaks of success and of one opaque error
  sentinel.
\<close>

datatype lgw_status = LGW_GPS_SUCCESS | LGW_GPS_ERROR

subsection \<open>The fix snapshot (file-scope variables)\<close>

record gps_vars =
  gps_yea :: "16 word"
  gps_mon :: "16 word"
  gps_day :: "16 word"
  gps_hou :: "16 word"
  gps_min :: "16 word"
  gps_sec :: "16 word"
  gps_fra :: real
  gps_time_ok :: bool
  gps_week :: "16 word"
  gps_iTOW :: "32 word"
  gps_fTOW :: "32 word"
  gps_dla :: "16 word"
  gps_mla :: real
  gps_ola :: byte
  gps_dlo :: "16 word"
  gps_mlo :: real
  gps_olo :: byte
  gps_alt :: "16 word"
  gps_pos_ok :: bool
  gps_mod :: byte
  gps_sat :: "16 word"

subsection \<open>UBX frames: \<^verbatim>\<open>lgw_parse_ubx\<close>\<close>

text \<open>
  The 8-bit Fletcher loop
  \<^verbatim>\<open>for (i=0; i<(4 + payload_length); i++) { ck_a = ck_a + serial_buff[i+2]; ck_b = ck_b + ck_a; }\<close>
  with \<open>n = 4 + payload_length\<close>.
\<close>

function ubx_ck_loop :: "byte list \<Rightarrow> nat \<Rightarrow> nat \<Rightarrow> byte \<Rightarrow> byte \<Rightarrow> (byte \<times> byte) option" where
  "ubx_ck_loop buf n i ck_a ck_b =
     (if i < n then
        (case rd buf (i + 2) of
           None \<Rightarrow> None
         | Some x \<Rightarrow> ubx_ck_loop buf n (Suc i) (ck_a + x) (ck_b + (ck_a + x)))
      else Some (ck_a, ck_b))"
  by pat_completeness auto
termination
  by (relation "measure (\<lambda>(buf, n, i, ck_a, ck_b). n - i)") auto

declare ubx_ck_loop.simps [simp del]

text \<open>Little-endian assembly of the multi-byte fields, as the shifts and ors of the source.\<close>

definition le16 :: "byte \<Rightarrow> byte \<Rightarrow> 'a::len word" where
  "le16 b0 b1 = ucast b0 OR push_bit 8 (ucast b1)"

definition le32 :: "byte \<Rightarrow> byte \<Rightarrow> byte \<Rightarrow> byte \<Rightarrow> 'a::len word" where
  "le32 b0 b1 b2 b3 =
     ucast b0 OR push_bit 8 (ucast b1) OR push_bit 16 (ucast b2) OR push_bit 24 (ucast b3)"

text \<open>
  The parser proper. The argument is the buffer (\<^verbatim>\<open>buff_size\<close> is its length) and the
  snapshot; the result is the message kind, the value left in \<^verbatim>\<open>*msg_size\<close> and the
  snapshot afterwards, or \<open>None\<close> when the function reads outside the buffer. The
  \<^verbatim>\<open>NULL\<close> test of the source has no counterpart: a list is never null. Bytes 0 and 1,
  and bytes 2 and 3, are read before the tests on them; the source reads the second of
  each pair only when the first matches, and both lie inside a buffer of 8 bytes.
\<close>

definition lgw_parse_ubx :: "byte list \<Rightarrow> gps_vars \<Rightarrow> (gps_msg \<times> nat \<times> gps_vars) option" where
  "lgw_parse_ubx serial_buff g =
     (let buff_size = length serial_buff in
      if buff_size < 8 then Some (IGNORED, 0, g)
      else do {
        s0 \<leftarrow> rd serial_buff 0;
        s1 \<leftarrow> rd serial_buff 1;
        if s0 = 0xB5 \<and> s1 = 0x62 then do {
          s4 \<leftarrow> rd serial_buff 4;
          s5 \<leftarrow> rd serial_buff 5;
          let payload_length = unat (le16 s4 s5 :: 32 word);
          let msg_size = 6 + payload_length + 2;
          if msg_size \<le> buff_size then do {
            ck_a_rcv \<leftarrow> rd serial_buff (msg_size - 2);
            ck_b_rcv \<leftarrow> rd serial_buff (msg_size - 1);
            (ck_a, ck_b) \<leftarrow> ubx_ck_loop serial_buff (4 + payload_length) 0 0 0;
            if ck_a = ck_a_rcv \<and> ck_b = ck_b_rcv then do {
              s2 \<leftarrow> rd serial_buff 2;
              s3 \<leftarrow> rd serial_buff 3;
              if s2 = 0x01 \<and> s3 = 0x20 then do {
                s17 \<leftarrow> rd serial_buff 17;
                let valid = (s17 AND 0x3 \<noteq> 0);
                if valid then do {
                  s6 \<leftarrow> rd serial_buff 6;
                  s7 \<leftarrow> rd serial_buff 7;
                  s8 \<leftarrow> rd serial_buff 8;
                  s9 \<leftarrow> rd serial_buff 9;
                  s10 \<leftarrow> rd serial_buff 10;
                  s11 \<leftarrow> rd serial_buff 11;
                  s12 \<leftarrow> rd serial_buff 12;
                  s13 \<leftarrow> rd serial_buff 13;
                  s14 \<leftarrow> rd serial_buff 14;
                  s15 \<leftarrow> rd serial_buff 15;
                  Some (UBX_NAV_TIMEGPS, msg_size,
                        g\<lparr>gps_iTOW := le32 s6 s7 s8 s9,
                          gps_fTOW := le32 s10 s11 s12 s13,
                          gps_week := le16 s14 s15,
                          gps_time_ok := True\<rparr>)
                } else Some (UBX_NAV_TIMEGPS, msg_size, g\<lparr>gps_time_ok := False\<rparr>)
              } else if s2 = 0x05 \<and> s3 = 0x00 then Some (IGNORED, msg_size, g)
              else if s2 = 0x05 \<and> s3 = 0x01 then Some (IGNORED, msg_size, g)
              else Some (IGNORED, msg_size, g)
            } else Some (INVALID, msg_size, g)
          } else Some (INCOMPLETE, msg_size, g)
        } else Some (IGNORED, 0, g)
      })"

subsection \<open>NMEA sentences: checksum and classification\<close>

text \<open>
  The loop of \<^verbatim>\<open>nmea_checksum\<close>:
  \<^verbatim>\<open>while (nmea_string[i] != '*') { check_num ^= nmea_string[i]; i += 1; if (i >= buff_size) return -1; }\<close>
  The result is \<open>Some None\<close> for the return value \<open>-1\<close>, \<open>Some (Some (i, check_num))\<close> when
  the loop leaves at the \<^verbatim>\<open>'*'\<close> found at index \<open>i\<close>, and \<open>None\<close> for a read outside the
  buffer.
\<close>

function nmea_xor_loop :: "byte list \<Rightarrow> nat \<Rightarrow> nat \<Rightarrow> byte \<Rightarrow> (nat \<times> byte) option option" where
  "nmea_xor_loop nmea_string buff_size i check_num =
     (case rd nmea_string i of
        None \<Rightarrow> None
      | Some c \<Rightarrow>
          if c \<noteq> 0x2A then
            (if Suc i \<ge> buff_size then Some None
             else nmea_xor_loop nmea_string buff_size (Suc i) (check_num XOR c))
          else Some (Some (i, check_num)))"
  by pat_completeness auto
termination
  by (relation "measure (\<lambda>(s, buff_size, i, check_num). buff_size - i)") auto

declare nmea_xor_loop.simps [simp del]

definition nibble_to_hexchar :: "byte \<Rightarrow> byte" where
  "nibble_to_hexchar a =
     (if a < 10 then 0x30 + a
      else if a < 16 then 0x41 + (a - 10)
      else 0x3F)"

text \<open>
  \<^verbatim>\<open>nmea_checksum\<close> returns the index after the \<^verbatim>\<open>'*'\<close>, or \<open>-1\<close>, and stores the two
  hexadecimal characters; the model returns the index together with the characters, which
  are those passed in when nothing is stored.
\<close>

definition nmea_checksum :: "byte list \<Rightarrow> byte \<times> byte \<Rightarrow> (int \<times> byte \<times> byte) option" where
  "nmea_checksum nmea_string checksum =
     (let buff_size = length nmea_string in
      if buff_size \<le> 1 then Some (-1, checksum)
      else do {
        c0 \<leftarrow> rd nmea_string 0;
        let i = (if c0 = 0x24 then 1 else 0);
        r \<leftarrow> nmea_xor_loop nmea_string buff_size i 0;
        (case r of
           None \<Rightarrow> Some (-1, checksum)
         | Some (i, check_num) \<Rightarrow>
             Some (int i + 1,
                   nibble_to_hexchar (check_num div 16),
                   nibble_to_hexchar (check_num mod 16)))
      })"

definition validate_nmea_checksum :: "byte list \<Rightarrow> bool option" where
  "validate_nmea_checksum serial_buff =
     (let buff_size = int (length serial_buff) in
      do {
        (checksum_index, ck0, ck1) \<leftarrow> nmea_checksum serial_buff (0, 0);
        if checksum_index < 0 then Some False
        else if checksum_index \<ge> buff_size - 2 then Some False
        else do {
          a \<leftarrow> rd serial_buff (nat checksum_index);
          if a = ck0 then do {
            b \<leftarrow> rd serial_buff (nat checksum_index + 1);
            Some (b = ck1)
          } else Some False
        }
      })"

text \<open>
  \<^verbatim>\<open>match_label\<close>: the loop \<^verbatim>\<open>for (i=0; i < size; i++)\<close>, entered with \<open>i = 0\<close>
  (\<open>sz\<close> is the parameter \<^verbatim>\<open>size\<close>).
\<close>

function match_label :: "byte list \<Rightarrow> byte list \<Rightarrow> nat \<Rightarrow> byte \<Rightarrow> nat \<Rightarrow> bool option" where
  "match_label s label sz wildcard i =
     (if i < sz then do {
        l \<leftarrow> rd label i;
        if l = wildcard then match_label s label sz wildcard (Suc i)
        else do {
          c \<leftarrow> rd s i;
          if l \<noteq> c then Some False else match_label s label sz wildcard (Suc i)
        }
      } else Some True)"
  by pat_completeness auto
termination
  by (relation "measure (\<lambda>(s, label, sz, wildcard, i). sz - i)") auto

declare match_label.simps [simp del]

text \<open>
  \<^verbatim>\<open>str_chop\<close>: the loop \<^verbatim>\<open>while (s[i] != 0)\<close>, returning the number of tokens, the
  chopped buffer and the index array.
\<close>

function str_chop_loop ::
  "byte list \<Rightarrow> byte \<Rightarrow> int list \<Rightarrow> nat \<Rightarrow> nat \<Rightarrow> nat \<Rightarrow> (int \<times> byte list \<times> int list) option" where
  "str_chop_loop s separator idx_ary max_idx i j =
     (case rd s i of
        None \<Rightarrow> None
      | Some c \<Rightarrow>
          if c \<noteq> 0 then
            (if c = separator then
               (if j \<ge> max_idx then Some (int j, s[i := 0], idx_ary)
                else str_chop_loop (s[i := 0]) separator (idx_ary[j := int i + 1]) max_idx (Suc i) (Suc j))
             else str_chop_loop s separator idx_ary max_idx (Suc i) j)
          else Some (int j, s, idx_ary))"
  by pat_completeness auto
termination
  by (relation "measure (\<lambda>(s, separator, idx_ary, max_idx, i, j). length s - i)")
     (auto simp: rd_def split: if_splits)

declare str_chop_loop.simps [simp del]

definition str_chop ::
  "byte list \<Rightarrow> int \<Rightarrow> byte \<Rightarrow> int list \<Rightarrow> int \<Rightarrow> (int \<times> byte list \<times> int list) option" where
  "str_chop s buff_size separator idx_ary max_idx =
     (if buff_size < 0 \<or> separator = 0 \<or> max_idx < 0 then Some (-1, s, idx_ary)
      else if buff_size = 0 \<or> max_idx = 0 then Some (0, s, idx_ary)
      else if nat buff_size - 1 < length s then
        str_chop_loop (s[nat buff_size - 1 := 0]) separator (idx_ary[0 := 0]) (nat max_idx) 0 1
      else None)"

text \<open>
  \<^verbatim>\<open>lgw_parse_nmea\<close>, as far as the kind it returns: the length tests, the checksum, the
  two labels and the number of fields. The decoding of the fields with \<^verbatim>\<open>sscanf\<close> into
  the snapshot, which does not influence the kind, is not part of the model.
\<close>

definition label_RMC :: "byte list" where
  "label_RMC = [0x24, 0x47, 0x3F, 0x52, 0x4D, 0x43]"

definition label_GGA :: "byte list" where
  "label_GGA = [0x24, 0x47, 0x3F, 0x47, 0x47, 0x41]"

definition lgw_parse_nmea :: "byte list \<Rightarrow> gps_msg option" where
  "lgw_parse_nmea serial_buff =
     (let buff_size = int (length serial_buff) in
      if buff_size > 255 then Some INVALID
      else if buff_size < 8 then Some UNKNOWN
      else do {
        ok \<leftarrow> validate_nmea_checksum serial_buff;
        if \<not> ok then Some INVALID
        else do {
          rmc \<leftarrow> match_label serial_buff label_RMC 6 0x3F 0;
          if rmc then do {
            (nb_fields, parser_buf, str_index) \<leftarrow>
               str_chop (serial_buff @ [0]) buff_size 0x2C (replicate 30 0) 30;
            if nb_fields \<noteq> 13 \<and> nb_fields \<noteq> 14 then Some IGNORED else Some NMEA_RMC
          } else do {
            gga \<leftarrow> match_label serial_buff label_GGA 6 0x3F 0;
            if gga then do {
              (nb_fields, parser_buf, str_index) \<leftarrow>
                 str_chop (serial_buff @ [0]) buff_size 0x2C (replicate 30 0) 30;
              if nb_fields \<noteq> 15 then Some IGNORED else Some NMEA_GGA
            } else Some IGNORED
          }
        }
      })"

subsection \<open>The time reference and the estimator\<close>

text \<open>
  Modelled from the spec: \<^verbatim>\<open>struct tref\<close> is declared in \<^verbatim>\<open>loragw_gps.h\<close>, which is not
  among the sources. Its fields are those the functions below use and the specification
  lists for the time reference tuple; \<^verbatim>\<open>struct timespec\<close> is the one of \<^verbatim>\<open>time.h\<close>.
\<close>

record timespec =
  tv_sec :: int
  tv_nsec :: int

record tref =
  systime :: int
  count_us :: "32 word"
  utc :: timespec
  gps :: timespec
  xtal_err :: real

definition TS_CPS :: real where
  "TS_CPS = 1000000"

definition PLUS_10PPM :: real where
  "PLUS_10PPM = 1.00001"

definition MINUS_10PPM :: real where
  "MINUS_10PPM = 0.99999"

text \<open>
  The estimator state: the reference the caller passes by pointer and the two static
  flags of \<^verbatim>\<open>lgw_gps_sync\<close>, which start as \<^verbatim>\<open>false\<close>.
\<close>

record sync_state =
  ref :: tref
  aber_min1 :: bool
  aber_min2 :: bool

definition timespec_diff :: "timespec \<Rightarrow> timespec \<Rightarrow> real" where
  "timespec_diff a b =
     real_of_int (tv_sec a - tv_sec b) + (1 / 1000000000) * real_of_int (tv_nsec a - tv_nsec b)"

text \<open>
  \<^verbatim>\<open>lgw_gps_sync\<close>. The first argument is the value \<^verbatim>\<open>time(NULL)\<close> returns. The slope is
  only computed by the source when \<open>utc_diff \<noteq> 0\<close>, and only used on the branch where the
  sample is not aberrant, which implies \<open>utc_diff \<noteq> 0\<close>.
\<close>

definition lgw_gps_sync ::
  "int \<Rightarrow> sync_state \<Rightarrow> 32 word \<Rightarrow> timespec \<Rightarrow> timespec \<Rightarrow> lgw_status \<times> sync_state" where
  "lgw_gps_sync now st cnt utc_t gps_time =
     (let r = ref st;
          cnt_diff = real (unat (cnt - count_us r)) / TS_CPS;
          utc_diff = timespec_diff utc_t (utc r);
          slope = cnt_diff / utc_diff;
          aber_n0 = (if utc_diff \<noteq> 0 then (if slope > PLUS_10PPM \<or> slope < MINUS_10PPM then True else False)
                     else True)
      in if aber_n0 = False then
           (LGW_GPS_SUCCESS,
            \<lparr>ref = r\<lparr>systime := now, count_us := cnt, utc := utc_t, gps := gps_time, xtal_err := slope\<rparr>,
             aber_min1 = aber_n0, aber_min2 = aber_min1 st\<rparr>)
         else if aber_n0 \<and> aber_min1 st \<and> aber_min2 st then
           (LGW_GPS_SUCCESS,
            \<lparr>ref = r\<lparr>systime := now, count_us := cnt, utc := utc_t, gps := gps_time,
                     xtal_err := (if xtal_err r > PLUS_10PPM \<or> xtal_err r < MINUS_10PPM then 1
                                  else xtal_err r)\<rparr>,
             aber_min1 = aber_n0, aber_min2 = aber_min1 st\<rparr>)
         else
           (LGW_GPS_ERROR, \<lparr>ref = r, aber_min1 = aber_n0, aber_min2 = aber_min1 st\<rparr>))"

subsection \<open>Conversions between counter, UTC and GPS time\<close>

text \<open>
  A cast from \<^verbatim>\<open>double\<close> to an integer type discards the fractional part. The cast to
  \<^verbatim>\<open>uint32_t\<close> is defined by C only when the truncated value fits the type; otherwise the
  value stored is indeterminate.
\<close>

definition c_trunc :: "real \<Rightarrow> int" where
  "c_trunc x = (if 0 \<le> x then \<lfloor>x\<rfloor> else \<lceil>x\<rceil>)"

text \<open>
  What a conversion leaves in the object its output pointer designates: nothing
  (\<open>Untouched\<close>), a value (\<open>Stored\<close>), or the result of a cast C does not define
  (\<open>Indeterminate\<close>).
\<close>

datatype 'a out_val = Untouched | Stored 'a | Indeterminate

definition double_to_u32 :: "real \<Rightarrow> 32 word option" where
  "double_to_u32 x =
     (if 0 \<le> c_trunc x \<and> c_trunc x < 2 ^ 32 then Some (word_of_int (c_trunc x)) else None)"

definition ref_invalid :: "tref \<Rightarrow> bool" where
  "ref_invalid r = (systime r = 0 \<or> xtal_err r > PLUS_10PPM \<or> xtal_err r < MINUS_10PPM)"

text \<open>
  The body shared by \<^verbatim>\<open>lgw_cnt2utc\<close> and \<^verbatim>\<open>lgw_cnt2gps\<close>, which differ in the field of
  the reference they add the delta to: \<^verbatim>\<open>modf\<close>, the sum of the nanoseconds and the carry.
\<close>

definition add_delta :: "timespec \<Rightarrow> real \<Rightarrow> timespec" where
  "add_delta base delta_sec =
     (let intpart = real_of_int (c_trunc delta_sec);
          fractpart = delta_sec - intpart;
          tmp = tv_nsec base + c_trunc (fractpart * 1000000000)
      in if tmp < 1000000000 then \<lparr>tv_sec = tv_sec base + c_trunc intpart, tv_nsec = tmp\<rparr>
         else \<lparr>tv_sec = tv_sec base + c_trunc intpart + 1, tv_nsec = tmp - 1000000000\<rparr>)"

definition lgw_cnt2utc :: "tref \<Rightarrow> 32 word \<Rightarrow> lgw_status \<times> timespec out_val" where
  "lgw_cnt2utc r cnt =
     (if ref_invalid r then (LGW_GPS_ERROR, Untouched)
      else let delta_sec = real (unat (cnt - count_us r)) / (TS_CPS * xtal_err r)
           in (LGW_GPS_SUCCESS, Stored (add_delta (utc r) delta_sec)))"


text \<open>
  The body shared by \<^verbatim>\<open>lgw_utc2cnt\<close> and \<^verbatim>\<open>lgw_gps2cnt\<close>:
  \<^verbatim>\<open>*count_us = ref.count_us + (uint32_t)(delta_sec * TS_CPS * ref.xtal_err)\<close>.
\<close>

definition add_ticks :: "tref \<Rightarrow> real \<Rightarrow> 32 word out_val" where
  "add_ticks r delta_sec =
     (case double_to_u32 (delta_sec * TS_CPS * xtal_err r) of
        None \<Rightarrow> Indeterminate
      | Some d \<Rightarrow> Stored (count_us r + d))"

definition lgw_utc2cnt :: "tref \<Rightarrow> timespec \<Rightarrow> lgw_status \<times> 32 word out_val" where
  "lgw_utc2cnt r utc_t =
     (if ref_invalid r then (LGW_GPS_ERROR, Untouched)
      else (LGW_GPS_SUCCESS, add_ticks r (timespec_diff utc_t (utc r))))"


subsection \<open>Terms the properties speak about\<close>

text \<open>
  The local variables \<^verbatim>\<open>utc_diff\<close> and \<^verbatim>\<open>slope\<close> of \<^verbatim>\<open>lgw_gps_sync\<close> as functions of the
  state and the sample.
\<close>

definition sync_utc_diff :: "sync_state \<Rightarrow> timespec \<Rightarrow> real" where
  "sync_utc_diff st utc_t = timespec_diff utc_t (utc (ref st))"

definition sync_slope :: "sync_state \<Rightarrow> 32 word \<Rightarrow> timespec \<Rightarrow> real" where
  "sync_slope st cnt utc_t =
     (real (unat (cnt - count_us (ref st))) / TS_CPS) / sync_utc_diff st utc_t"

text \<open>The index at which \<^verbatim>\<open>nmea_checksum\<close> starts to look for the \<^verbatim>\<open>'*'\<close>.\<close>

definition star_start :: "byte list \<Rightarrow> nat" where
  "star_start buf = (if buf ! 0 = 0x24 then 1 else 0)"

subsection \<open>Concrete inputs\<close>

text \<open>The file-scope variables as their initialisers leave them (\<^verbatim>\<open>gps_mod = 'N'\<close>).\<close>

definition gps_vars_init :: gps_vars where
  "gps_vars_init =
     \<lparr>gps_yea = 0, gps_mon = 0, gps_day = 0, gps_hou = 0, gps_min = 0, gps_sec = 0,
      gps_fra = 0, gps_time_ok = False, gps_week = 0, gps_iTOW = 0, gps_fTOW = 0,
      gps_dla = 0, gps_mla = 0, gps_ola = 0, gps_dlo = 0, gps_mlo = 0, gps_olo = 0,
      gps_alt = 0, gps_pos_ok = False, gps_mod = 0x4E, gps_sat = 0\<rparr>"

text \<open>
  A NAV-TIMEGPS frame of 24 bytes with a correct checksum: iTOW \<open>0x0ABCDE00\<close>, fTOW \<open>0\<close>,
  week \<open>2200\<close>, and the validity byte \<open>0x01\<close> (towValid set, weekValid clear).
\<close>

definition ubx_timegps_tow_only :: "byte list" where
  "ubx_timegps_tow_only =
     [0xB5, 0x62, 0x01, 0x20, 0x10, 0x00,
      0x00, 0xDE, 0xBC, 0x0A, 0x00, 0x00, 0x00, 0x00, 0x98, 0x08, 0x12, 0x01,
      0x00, 0x00, 0x00, 0x00, 0x88, 0xC9]"

text \<open>The first twelve bytes of such a frame.\<close>

definition ubx_timegps_truncated :: "byte list" where
  "ubx_timegps_truncated =
     [0xB5, 0x62, 0x01, 0x20, 0x10, 0x00, 0x00, 0xDE, 0xBC, 0x0A, 0x00, 0x00]"

text \<open>
  A frame of class \<open>0x01\<close> and ID \<open>0x20\<close> with an empty payload and a correct checksum:
  8 bytes in all.
\<close>

definition ubx_timegps_empty :: "byte list" where
  "ubx_timegps_empty = [0xB5, 0x62, 0x01, 0x20, 0x00, 0x00, 0x21, 0x64]"

text \<open>The sentence \<^verbatim>\<open>$GPRMC*4B\<close>, whose checksum characters are correct and end the buffer.\<close>

definition nmea_rmc_bare :: "byte list" where
  "nmea_rmc_bare = [0x24, 0x47, 0x50, 0x52, 0x4D, 0x43, 0x2A, 0x34, 0x42]"

text \<open>The five bytes \<^verbatim>\<open>$A*41\<close>, again with correct checksum characters at the end.\<close>

definition nmea_tiny :: "byte list" where
  "nmea_tiny = [0x24, 0x41, 0x2A, 0x34, 0x31]"

text \<open>The reference before any synchronisation, and the estimator at process start.\<close>

definition tref_zero :: tref where
  "tref_zero = \<lparr>systime = 0, count_us = 0, utc = \<lparr>tv_sec = 0, tv_nsec = 0\<rparr>,
                gps = \<lparr>tv_sec = 0, tv_nsec = 0\<rparr>, xtal_err = 0\<rparr>"

definition sync_init :: sync_state where
  "sync_init = \<lparr>ref = tref_zero, aber_min1 = False, aber_min2 = False\<rparr>"

text \<open>A calibrated reference whose counter sample is 256 ticks before the wrap.\<close>

definition tref_sample :: tref where
  "tref_sample =
     \<lparr>systime = 1700000000, count_us = 4294967040,
      utc = \<lparr>tv_sec = 1700000000, tv_nsec = 999999000\<rparr>,
      gps = \<lparr>tv_sec = 1384035218, tv_nsec = 999999000\<rparr>, xtal_err = 1.000001\<rparr>"




section \<open>Properties of the UBX parser\<close>

lemma unat_ucast_8_32: "unat (ucast (a :: byte) :: 32 word) = unat a"
proof -
  have "unat a < 2 ^ 32"
    using unsigned_less [of a, where 'a = nat] by simp
  then show ?thesis
    by (simp add: unsigned_ucast_eq take_bit_nat_eq_self)
qed

text \<open>The payload length is the little-endian value of bytes 4 and 5.\<close>

lemma le16_unat: "unat (le16 a b :: 32 word) = unat a + 256 * unat b"
proof -
  have disj: "(ucast a :: 32 word) + push_bit 8 (ucast b) = ucast a OR push_bit 8 (ucast b)"
    by (rule disjunctive_add_eq_or) (auto simp: bit_eq_iff bit_simps dest: bit_imp_le_length)
  have "unat (ucast a + push_bit 8 (ucast b) :: 32 word) = unat a + 256 * unat b"
    using unsigned_less [of a, where 'a = nat] unsigned_less [of b, where 'a = nat]
    by (simp add: unat_word_ariths push_bit_eq_mult unat_ucast_8_32)
  with disj show ?thesis
    by (simp add: le16_def)
qed

text \<open>
  Claim C7. A buffer of at least 8 bytes that starts with the sync bytes \<open>0xB5 0x62\<close> and
  is shorter than the message size \<open>6 + payload_length + 2\<close> its header declares
  (payload length little-endian in bytes 4 and 5) is classified \<open>INCOMPLETE\<close>; the size
  reported is that message size, and the snapshot is returned as it was.
\<close>

theorem parse_ubx_incomplete:
  assumes "8 \<le> length buf"
    and "buf ! 0 = 0xB5" and "buf ! 1 = 0x62"
    and "length buf < 6 + (unat (buf ! 4) + 256 * unat (buf ! 5)) + 2"
  shows "lgw_parse_ubx buf g =
         Some (INCOMPLETE, 6 + (unat (buf ! 4) + 256 * unat (buf ! 5)) + 2, g)"
proof -
  from assms(1) have "buf \<noteq> []" by auto
  with assms show ?thesis
    by (simp add: lgw_parse_ubx_def rd_def le16_unat Let_def)
qed

theorem parse_ubx_incomplete_witness:
  "8 \<le> length ubx_timegps_truncated \<and>
   ubx_timegps_truncated ! 0 = 0xB5 \<and> ubx_timegps_truncated ! 1 = 0x62 \<and>
   length ubx_timegps_truncated
     < 6 + (unat (ubx_timegps_truncated ! 4) + 256 * unat (ubx_timegps_truncated ! 5)) + 2 \<and>
   lgw_parse_ubx ubx_timegps_truncated gps_vars_init = Some (INCOMPLETE, 24, gps_vars_init)"
proof -
  have h1: "8 \<le> length ubx_timegps_truncated"
    by (simp add: ubx_timegps_truncated_def)
  have h2: "ubx_timegps_truncated ! 0 = 0xB5"
    by (simp add: ubx_timegps_truncated_def)
  have h3: "ubx_timegps_truncated ! 1 = 0x62"
    by (simp add: ubx_timegps_truncated_def)
  have h4: "length ubx_timegps_truncated
     < 6 + (unat (ubx_timegps_truncated ! 4) + 256 * unat (ubx_timegps_truncated ! 5)) + 2"
    by (simp add: ubx_timegps_truncated_def)
  have sz: "6 + (unat (ubx_timegps_truncated ! 4) + 256 * unat (ubx_timegps_truncated ! 5)) + 2 = 24"
    by (simp add: ubx_timegps_truncated_def)
  show ?thesis
    using h1 h2 h3 h4 parse_ubx_incomplete [OF h1 h2 h3 h4, of gps_vars_init]
    by (simp only: sz simp_thms)
qed

text \<open>
  Claim C1. The claim asks that a checksum-valid NAV-TIMEGPS frame sets the time fields and
  \<open>time_valid\<close> only when bits 0 and 1 of byte 17 are both set. The source tests
  \<^verbatim>\<open>serial_buff[17] & 0x3\<close> for being non-zero, so one bit is enough: on the frame below
  only towValid is set, and the parser stores iTOW, fTOW and the week and sets
  \<^verbatim>\<open>gps_time_ok\<close>.
\<close>

theorem parse_ubx_tow_only_accepted:
  "lgw_parse_ubx ubx_timegps_tow_only gps_vars_init =
     Some (UBX_NAV_TIMEGPS, 24,
           gps_vars_init\<lparr>gps_iTOW := 0x0ABCDE00, gps_fTOW := 0, gps_week := 2200,
                         gps_time_ok := True\<rparr>)"
  by (simp add: lgw_parse_ubx_def ubx_timegps_tow_only_def ubx_ck_loop.simps rd_def
        le16_def le32_def)

text \<open>
  Claim C9. The claim asks that every read stays below \<open>buff_size\<close>. On a checksum-valid
  frame of class \<open>0x01\<close> and ID \<open>0x20\<close> the source reads byte 17 without comparing 17 with
  the buffer size: on the 8-byte frame with an empty payload the read is outside the
  buffer.
\<close>

theorem parse_ubx_reads_past_short_frame:
  "length ubx_timegps_empty = 8 \<and> lgw_parse_ubx ubx_timegps_empty gps_vars_init = None"
  by (simp add: lgw_parse_ubx_def ubx_timegps_empty_def ubx_ck_loop.simps rd_def
        le16_def le32_def)

text \<open>
  The Fletcher loop stays inside the buffer when the bytes it covers are there, which the
  size test of the parser guarantees.
\<close>

lemma ubx_ck_loop_in_bounds:
  assumes "n + 2 \<le> length buf"
  shows "\<exists>a b. ubx_ck_loop buf n i ck_a ck_b = Some (a, b)"
proof (induction "n - i" arbitrary: i ck_a ck_b)
  case 0
  then show ?case
    by (simp add: ubx_ck_loop.simps [of buf n i])
next
  case (Suc k)
  then have lt: "i < n"
    by simp
  have "\<exists>a b. ubx_ck_loop buf n (Suc i) (ck_a + buf ! (i + 2)) (ck_b + (ck_a + buf ! (i + 2)))
                = Some (a, b)"
    using Suc.hyps(2) by (intro Suc.hyps(1)) simp
  then show ?case
    using lt assms by (subst ubx_ck_loop.simps) (simp add: rd_def)
qed

text \<open>
  What the parser does with a complete, checksum-valid frame of class \<open>0x01\<close> and ID
  \<open>0x20\<close> in a buffer of at least 18 bytes: the kind is always \<open>UBX_NAV_TIMEGPS\<close>, and the
  time fields are stored and marked valid as soon as one of the bits 0 and 1 of byte 17
  is set.
\<close>

lemma parse_ubx_timegps:
  assumes "18 \<le> length buf"
    and "buf ! 0 = 0xB5" and "buf ! 1 = 0x62"
    and "payload_length = unat (buf ! 4) + 256 * unat (buf ! 5)"
    and "8 + payload_length \<le> length buf"
    and "ubx_ck_loop buf (4 + payload_length) 0 0 0
           = Some (buf ! (6 + payload_length), buf ! (7 + payload_length))"
    and "buf ! 2 = 0x01" and "buf ! 3 = 0x20"
  shows "lgw_parse_ubx buf g =
           Some (UBX_NAV_TIMEGPS, 8 + payload_length,
                 if buf ! 17 AND 0x3 \<noteq> 0 then
                   g\<lparr>gps_iTOW := le32 (buf ! 6) (buf ! 7) (buf ! 8) (buf ! 9),
                     gps_fTOW := le32 (buf ! 10) (buf ! 11) (buf ! 12) (buf ! 13),
                     gps_week := le16 (buf ! 14) (buf ! 15),
                     gps_time_ok := True\<rparr>
                 else g\<lparr>gps_time_ok := False\<rparr>)"
proof -
  have rd: "\<And>i. i < 18 \<Longrightarrow> rd buf i = Some (buf ! i)"
    using assms(1) by (simp add: rd_def)
  have rdm: "rd buf (6 + payload_length) = Some (buf ! (6 + payload_length))"
    "rd buf (7 + payload_length) = Some (buf ! (7 + payload_length))"
    using assms(5) by (simp_all add: rd_def)
  have pl: "unat (le16 (buf ! 4) (buf ! 5) :: 32 word) = payload_length"
    by (simp add: le16_unat assms(4))
  show ?thesis
    unfolding lgw_parse_ubx_def Let_def
    using assms(1,2,3,5,7,8)
    by (simp add: rd rdm pl assms(6) del: One_nat_def)
qed

text \<open>In a buffer of at least 18 bytes the parser never reads outside the buffer.\<close>

lemma parse_ubx_in_bounds:
  assumes "18 \<le> length buf"
  shows "lgw_parse_ubx buf g \<noteq> None"
proof -
  have rd: "\<And>i. i < 18 \<Longrightarrow> rd buf i = Some (buf ! i)"
    using assms by (simp add: rd_def)
  define pl where "pl = unat (le16 (buf ! 4) (buf ! 5) :: 32 word)"
  show ?thesis
  proof (cases "6 + pl + 2 \<le> length buf")
    case False
    then show ?thesis
      unfolding lgw_parse_ubx_def Let_def
      using assms by (simp add: rd pl_def [symmetric] del: One_nat_def)
  next
    case True
    then have rdm: "rd buf (6 + pl) = Some (buf ! (6 + pl))"
      "rd buf (7 + pl) = Some (buf ! (7 + pl))"
      by (simp_all add: rd_def)
    obtain a b where ck: "ubx_ck_loop buf (4 + pl) 0 0 0 = Some (a, b)"
      using ubx_ck_loop_in_bounds [of "4 + pl" buf 0 0 0] True by auto
    show ?thesis
      unfolding lgw_parse_ubx_def Let_def
      using assms True
      by (simp add: rd rdm ck pl_def [symmetric] del: One_nat_def)
  qed
qed

section \<open>Properties of the synchronisation\<close>

text \<open>
  How \<^verbatim>\<open>lgw_gps_sync\<close> ends when the sample is aberrant, that is when the UTC difference
  is zero or the slope is strictly above \<open>1.00001\<close> or strictly below \<open>0.99999\<close>.
\<close>

lemma sync_aberrant:
  assumes "sync_utc_diff st utc_t = 0 \<or> sync_slope st cnt utc_t > 1.00001
             \<or> sync_slope st cnt utc_t < 0.99999"
  shows "lgw_gps_sync now st cnt utc_t gps_time =
           (if aber_min1 st \<and> aber_min2 st then
              (LGW_GPS_SUCCESS,
               \<lparr>ref = (ref st)\<lparr>systime := now, count_us := cnt, utc := utc_t, gps := gps_time,
                       xtal_err := (if xtal_err (ref st) > 1.00001 \<or> xtal_err (ref st) < 0.99999
                                    then 1 else xtal_err (ref st))\<rparr>,
                aber_min1 = True, aber_min2 = True\<rparr>)
            else (LGW_GPS_ERROR, \<lparr>ref = ref st, aber_min1 = True, aber_min2 = aber_min1 st\<rparr>))"
  using assms
  by (auto simp: lgw_gps_sync_def sync_utc_diff_def sync_slope_def PLUS_10PPM_def
        MINUS_10PPM_def Let_def)


text \<open>The first sample of the specification's scenario, seen from the zero reference.\<close>

lemma first_sync_slope:
  assumes "ref st = tref_zero"
  shows "sync_utc_diff st \<lparr>tv_sec = 100, tv_nsec = 0\<rparr> = 100"
    and "sync_slope st 1000000 \<lparr>tv_sec = 100, tv_nsec = 0\<rparr> = 1 / 100"
  using assms
  by (simp_all add: sync_slope_def sync_utc_diff_def timespec_diff_def tref_zero_def TS_CPS_def)

text \<open>
  Claim C2, as amended. From the all-zero reference the call
  \<open>sync(count_us = 1000000, utc = (100, 0), gps = (200, 0))\<close> computes the slope \<open>0.01\<close>,
  which is aberrant. It returns the error sentinel and leaves the reference as it was,
  unless the two previous attempts were aberrant as well; then it commits \<open>systime\<close>,
  \<open>count_us\<close>, \<open>utc\<close> and \<open>gps\<close> and sets \<open>xtal_err\<close> to \<open>1.0\<close>. In neither case does
  \<open>xtal_err\<close> become the slope.
\<close>

theorem first_sync_is_aberrant:
  assumes "ref st = tref_zero"
  shows "lgw_gps_sync now st 1000000 \<lparr>tv_sec = 100, tv_nsec = 0\<rparr> \<lparr>tv_sec = 200, tv_nsec = 0\<rparr> =
           (if aber_min1 st \<and> aber_min2 st then
              (LGW_GPS_SUCCESS,
               \<lparr>ref = \<lparr>systime = now, count_us = 1000000, utc = \<lparr>tv_sec = 100, tv_nsec = 0\<rparr>,
                       gps = \<lparr>tv_sec = 200, tv_nsec = 0\<rparr>, xtal_err = 1\<rparr>,
                aber_min1 = True, aber_min2 = True\<rparr>)
            else (LGW_GPS_ERROR, \<lparr>ref = tref_zero, aber_min1 = True, aber_min2 = aber_min1 st\<rparr>))"
proof -
  have ab: "sync_utc_diff st \<lparr>tv_sec = 100, tv_nsec = 0\<rparr> = 0
              \<or> sync_slope st 1000000 \<lparr>tv_sec = 100, tv_nsec = 0\<rparr> > 1.00001
              \<or> sync_slope st 1000000 \<lparr>tv_sec = 100, tv_nsec = 0\<rparr> < 0.99999"
    by (simp add: first_sync_slope [OF assms])
  show ?thesis
    by (simp add: sync_aberrant [OF ab] assms) (simp add: tref_zero_def)
qed

theorem first_sync_is_aberrant_witness:
  "ref sync_init = tref_zero \<and>
   lgw_gps_sync 1700000000 sync_init 1000000 \<lparr>tv_sec = 100, tv_nsec = 0\<rparr> \<lparr>tv_sec = 200, tv_nsec = 0\<rparr> =
     (LGW_GPS_ERROR, \<lparr>ref = tref_zero, aber_min1 = True, aber_min2 = False\<rparr>)"
proof -
  have h: "ref sync_init = tref_zero"
    by (simp add: sync_init_def)
  show ?thesis
    using h first_sync_is_aberrant [OF h, of 1700000000]
    by (simp add: sync_init_def)
qed

text \<open>
  Claim C2, as stated, fails: at process start the call does not return success, and the
  reference stays all-zero (its \<open>xtal_err\<close> is not the slope \<open>0.01\<close>).
\<close>

theorem first_sync_counterexample:
  "fst (lgw_gps_sync 1700000000 sync_init 1000000
          \<lparr>tv_sec = 100, tv_nsec = 0\<rparr> \<lparr>tv_sec = 200, tv_nsec = 0\<rparr>) = LGW_GPS_ERROR \<and>
   ref (snd (lgw_gps_sync 1700000000 sync_init 1000000
          \<lparr>tv_sec = 100, tv_nsec = 0\<rparr> \<lparr>tv_sec = 200, tv_nsec = 0\<rparr>)) = tref_zero \<and>
   sync_slope sync_init 1000000 \<lparr>tv_sec = 100, tv_nsec = 0\<rparr> = 1 / 100"
  by (simp add: lgw_gps_sync_def sync_init_def tref_zero_def timespec_diff_def TS_CPS_def
        PLUS_10PPM_def MINUS_10PPM_def sync_slope_def sync_utc_diff_def Let_def)










section \<open>Properties of the conversions\<close>




subsection \<open>Counter to time and back\<close>








text \<open>
  The values of that round trip: the counter 1234567 lies 1234823 ticks after the
  reference, across the wrap; the time is cut to whole nanoseconds, and the way back
  yields 1234566.
\<close>

lemma cnt_time_roundtrip_values:
  "lgw_cnt2utc tref_sample 1234567 =
     (LGW_GPS_SUCCESS, Stored \<lparr>tv_sec = 1700000002, tv_nsec = 234820765\<rparr>)"
  "lgw_utc2cnt tref_sample \<lparr>tv_sec = 1700000002, tv_nsec = 234820765\<rparr> =
     (LGW_GPS_SUCCESS, Stored 1234566)"
  by (simp_all add: lgw_cnt2utc_def lgw_utc2cnt_def ref_invalid_def PLUS_10PPM_def
        MINUS_10PPM_def tref_sample_def TS_CPS_def add_delta_def add_ticks_def
        double_to_u32_def timespec_diff_def c_trunc_def Let_def)

section \<open>Properties of the NMEA checksum validation\<close>

text \<open>The loop of \<^verbatim>\<open>nmea_checksum\<close> leaves at the first \<^verbatim>\<open>'*'\<close> at or after its start.\<close>

lemma nmea_xor_loop_star:
  assumes "i \<le> p" and "p < length s" and "s ! p = 0x2A"
    and "\<forall>k. i \<le> k \<and> k < p \<longrightarrow> s ! k \<noteq> 0x2A"
  shows "\<exists>cn. nmea_xor_loop s (length s) i x = Some (Some (p, cn))"
  using assms
proof (induction "p - i" arbitrary: i x)
  case 0
  then have "i = p"
    by simp
  with 0 show ?case
    by (simp add: nmea_xor_loop.simps [of s "length s" p] rd_def)
next
  case (Suc n)
  then have lt: "i < p" and ne: "s ! i \<noteq> 0x2A"
    by auto
  have ih: "\<exists>cn. nmea_xor_loop s (length s) (Suc i) (x XOR s ! i) = Some (Some (p, cn))"
    using Suc.prems Suc.hyps(2) lt by (intro Suc.hyps(1)) auto
  show ?case
    using ih lt ne Suc.prems(2)
    by (subst nmea_xor_loop.simps) (simp add: rd_def)
qed

lemma nmea_checksum_index:
  assumes "1 < length buf" and "star_start buf \<le> p" and "p < length buf" and "buf ! p = 0x2A"
    and "0x2A \<notin> set (take (p - star_start buf) (drop (star_start buf) buf))"
  shows "\<exists>c0 c1. nmea_checksum buf cs = Some (int p + 1, c0, c1)"
proof -
  have before: "\<forall>k. star_start buf \<le> k \<and> k < p \<longrightarrow> buf ! k \<noteq> 0x2A"
  proof (intro allI impI)
    fix k
    assume k: "star_start buf \<le> k \<and> k < p"
    let ?xs = "take (p - star_start buf) (drop (star_start buf) buf)"
    have len: "k - star_start buf < length ?xs"
      using k assms(3) by auto
    have "?xs ! (k - star_start buf) = buf ! k"
      using k assms(3) by auto
    with len have "buf ! k \<in> set ?xs"
      by (metis nth_mem)
    with assms(5) show "buf ! k \<noteq> 0x2A"
      by auto
  qed
  obtain cn where "nmea_xor_loop buf (length buf) (star_start buf) 0 = Some (Some (p, cn))"
    using nmea_xor_loop_star [OF assms(2,3,4) before] by blast
  moreover have "buf \<noteq> []"
    using assms(1) by auto
  ultimately show ?thesis
    using assms(1) by (simp add: nmea_checksum_def rd_def star_start_def Let_def)
qed

text \<open>
  Claim C10, as amended. For every buffer of at least 8 bytes in which the position
  immediately after the \<^verbatim>\<open>'*'\<close> (the first one at or after the start of the checksum
  range) is greater than or equal to \<open>buff_size - 2\<close>, the sentence is classified
  \<open>INVALID\<close>, whatever the bytes after the \<^verbatim>\<open>'*'\<close> are: a sentence passes the checksum
  validation only when at least one byte follows its two checksum characters.
\<close>

theorem parse_nmea_needs_trailing_byte:
  assumes "8 \<le> length buf"
    and "star_start buf \<le> p" and "p < length buf" and "buf ! p = 0x2A"
    and "0x2A \<notin> set (take (p - star_start buf) (drop (star_start buf) buf))"
    and "int (length buf) - 2 \<le> int p + 1"
  shows "lgw_parse_nmea buf = Some INVALID"
proof -
  from assms(1) have l: "1 < length buf"
    by simp
  obtain c0 c1 where "nmea_checksum buf (0, 0) = Some (int p + 1, c0, c1)"
    using nmea_checksum_index [OF l assms(2,3,4,5)] by blast
  then have "validate_nmea_checksum buf = Some False"
    using assms(6) by (simp add: validate_nmea_checksum_def Let_def)
  then show ?thesis
    using assms(1) by (simp add: lgw_parse_nmea_def Let_def)
qed

theorem parse_nmea_needs_trailing_byte_witness:
  "8 \<le> length nmea_rmc_bare \<and> nmea_rmc_bare ! 6 = 0x2A \<and>
   0x2A \<notin> set (take 5 (drop 1 nmea_rmc_bare)) \<and>
   int (length nmea_rmc_bare) - 2 \<le> int 6 + 1 \<and>
   lgw_parse_nmea nmea_rmc_bare = Some INVALID"
proof -
  have h1: "8 \<le> length nmea_rmc_bare"
    by (simp add: nmea_rmc_bare_def)
  have s: "star_start nmea_rmc_bare = 1"
    by (simp add: nmea_rmc_bare_def star_start_def)
  have h2: "star_start nmea_rmc_bare \<le> 6"
    by (simp add: s)
  have h3: "6 < length nmea_rmc_bare"
    by (simp add: nmea_rmc_bare_def)
  have h4: "nmea_rmc_bare ! 6 = 0x2A"
    by (simp add: nmea_rmc_bare_def)
  have n: "0x2A \<notin> set (take 5 (drop 1 nmea_rmc_bare))"
    by (simp add: nmea_rmc_bare_def)
  have h5: "0x2A \<notin> set (take (6 - star_start nmea_rmc_bare)
                           (drop (star_start nmea_rmc_bare) nmea_rmc_bare))"
    using n by (simp add: s)
  have h6: "int (length nmea_rmc_bare) - 2 \<le> int 6 + 1"
    by (simp add: nmea_rmc_bare_def)
  show ?thesis
    using h1 h4 n h6 parse_nmea_needs_trailing_byte [OF h1 h2 h3 h4 h5 h6] by blast
qed

text \<open>
  The two characters that end that buffer are the checksum the source computes, and the
  same sentence followed by a carriage return passes the validation.
\<close>

lemma nmea_rmc_bare_checksum:
  "nmea_checksum nmea_rmc_bare (0, 0) = Some (7, 0x34, 0x42)"
  "nmea_rmc_bare ! 7 = 0x34" "nmea_rmc_bare ! 8 = 0x42"
  "validate_nmea_checksum (nmea_rmc_bare @ [0x0D]) = Some True"
  by (simp_all add: nmea_rmc_bare_def validate_nmea_checksum_def nmea_checksum_def
        nmea_xor_loop.simps rd_def nibble_to_hexchar_def Let_def)

text \<open>
  Claim C10, as stated, fails on a buffer shorter than 8 bytes: in \<^verbatim>\<open>$A*41\<close> the position
  after the \<^verbatim>\<open>'*'\<close> is 3, which is \<open>buff_size - 2\<close>, and the checksum characters are
  correct, but the length test comes first and the kind is \<open>UNKNOWN\<close>, not \<open>INVALID\<close>.
\<close>

theorem parse_nmea_short_counterexample:
  "length nmea_tiny = 5 \<and> nmea_tiny ! 2 = 0x2A \<and>
   nmea_checksum nmea_tiny (0, 0) = Some (3, 0x34, 0x31) \<and>
   nmea_tiny ! 3 = 0x34 \<and> nmea_tiny ! 4 = 0x31 \<and>
   int (length nmea_tiny) - 2 \<le> 3 \<and>
   lgw_parse_nmea nmea_tiny = Some UNKNOWN"
  by (simp add: nmea_tiny_def lgw_parse_nmea_def nmea_checksum_def nmea_xor_loop.simps
        rd_def nibble_to_hexchar_def Let_def)

end
